theory Spec2Isabelle
  imports Main "HOL-Library.Sublist" "HOL-Library.Char_ord" "HOL-Library.List_Lexorder"
    "HOL-Library.Product_Lexorder" "HOL-Library.Option_ord" "HOL-Library.Multiset"
begin

section \<open>The io module of pecos\<close>

text \<open>
  A shallow embedding of \<^verbatim>\<open>src/pecos/io.py\<close>. The module is glue between pandas,
  jinja2, smtplib and the file system. The functions of the module are translated line
  by line; what an external library computes (the CSV tokeniser, the float and timestamp
  parsers, the HTML renderers, the SMTP server) is passed to the model as a parameter,
  so that nothing is assumed about it beyond what a theorem states as a hypothesis.
\<close>

subsection \<open>Exceptions, the logger and the file system\<close>

text \<open>The key a failed lookup names: a column label, a dictionary key, or a pair.\<close>

datatype key = Key string | KeyPair string string

datatype exn =
    IOError string
  | KeyError key
  | ValueError string
  | OtherError string

datatype level = INFO | WARNING

text \<open>
  The part of the world the module reads and writes: the readable files with their
  contents, the paths \<^verbatim>\<open>open(path, 'w')\<close> succeeds on, and the records handed to the
  module's logger, oldest first.
\<close>

record world =
  files :: "string \<rightharpoonup> string"
  writable :: "string \<Rightarrow> bool"
  logged :: "(level \<times> string) list"

definition logger_info :: "string \<Rightarrow> world \<Rightarrow> world" where
  "logger_info msg w = w\<lparr>logged := logged w @ [(INFO, msg)]\<rparr>"

definition logger_warning :: "string \<Rightarrow> world \<Rightarrow> world" where
  "logger_warning msg w = w\<lparr>logged := logged w @ [(WARNING, msg)]\<rparr>"

text \<open>\<^verbatim>\<open>f = open(name, 'rb'); f.read()\<close>: the bytes of the file, or IOError.\<close>

definition read_file :: "world \<Rightarrow> string \<Rightarrow> exn + string" where
  "read_file w name = (case files w name of None \<Rightarrow> Inl (IOError name) | Some bytes \<Rightarrow> Inr bytes)"

text \<open>\<^verbatim>\<open>f = open(name, 'w'); f.write(text); f.close()\<close>: the file is replaced, or IOError.\<close>

definition write_file :: "world \<Rightarrow> string \<Rightarrow> string \<Rightarrow> exn + world" where
  "write_file w name txt =
     (if writable w name then Inr (w\<lparr>files := (files w)(name \<mapsto> txt)\<rparr>) else Inl (IOError name))"

subsection \<open>Strings\<close>

text \<open>Python's \<^verbatim>\<open>sub in s\<close> on strings, which is also \<^verbatim>\<open>re.search\<close> for a literal pattern.\<close>

fun contains :: "'a list \<Rightarrow> 'a list \<Rightarrow> bool" where
  "contains sub [] = (sub = [])"
| "contains sub (c # cs) = (prefix sub (c # cs) \<or> contains sub cs)"

subsection \<open>Data frames\<close>

text \<open>
  A pandas DataFrame: the row labels, the column labels and the cells, row by row.
  A cell is \<open>None\<close> where pandas holds its missing marker NaN (NaT in a timestamp index).
  \<^verbatim>\<open>pd.DataFrame()\<close> has no rows and no columns.
\<close>

record ('i, 'c) frame =
  df_index :: "'i list"
  df_columns :: "string list"
  df_values :: "'c list list"

definition DataFrame_empty :: "('i, 'c) frame" where
  "DataFrame_empty = \<lparr>df_index = [], df_columns = [], df_values = []\<rparr>"

text \<open>\<^verbatim>\<open>df.empty\<close>: some axis has length 0.\<close>

definition df_empty :: "('i, 'c) frame \<Rightarrow> bool" where
  "df_empty df = (df_index df = [] \<or> df_columns df = [])"

text \<open>The shape pandas maintains: one row of cells per label, one cell per column.\<close>

definition well_shaped :: "('i, 'c) frame \<Rightarrow> bool" where
  "well_shaped df =
     (length (df_values df) = length (df_index df) \<and>
      list_all (\<lambda>row. length row = length (df_columns df)) (df_values df))"

text \<open>Selection by a boolean mask, as numpy and pandas do it.\<close>

definition select :: "bool list \<Rightarrow> 'a list \<Rightarrow> 'a list" where
  "select bs xs = map snd (filter fst (zip bs xs))"

text \<open>\<^verbatim>\<open>df[k:]\<close>: the rows from position k on.\<close>

definition df_rows_from :: "nat \<Rightarrow> ('i, 'c) frame \<Rightarrow> ('i, 'c) frame" where
  "df_rows_from k df = df\<lparr>df_index := drop k (df_index df), df_values := drop k (df_values df)\<rparr>"

text \<open>\<^verbatim>\<open>df.filter(regex=pat).columns\<close> for a literal pattern: the column labels that contain it.\<close>

definition filter_regex_columns :: "string \<Rightarrow> ('i, 'c) frame \<Rightarrow> string list" where
  "filter_regex_columns pat df = filter (contains pat) (df_columns df)"

text \<open>
  \<^verbatim>\<open>df.drop(labels, 1)\<close>: the frame without the columns of these labels. (pandas raises
  for a label that is no column; the module only passes labels it took from the frame.)
\<close>

definition drop_columns :: "string list \<Rightarrow> ('i, 'c) frame \<Rightarrow> ('i, 'c) frame" where
  "drop_columns labels df =
     (let keep = map (\<lambda>c. c \<notin> set labels) (df_columns df)
      in df\<lparr>df_columns := select keep (df_columns df),
            df_values := map (select keep) (df_values df)\<rparr>)"

text \<open>
  \<^verbatim>\<open>pd.to_datetime(index)\<close> with a parser for one label: a missing label becomes NaT,
  a label the parser rejects raises.
\<close>

fun to_datetime :: "(string \<Rightarrow> 't option) \<Rightarrow> string option list \<Rightarrow> exn + 't option list" where
  "to_datetime parse_ts [] = Inr []"
| "to_datetime parse_ts (None # xs) =
     (case to_datetime parse_ts xs of Inl e \<Rightarrow> Inl e | Inr ts \<Rightarrow> Inr (None # ts))"
| "to_datetime parse_ts (Some s # xs) =
     (case parse_ts s of
        None \<Rightarrow> Inl (ValueError s)
      | Some t \<Rightarrow> (case to_datetime parse_ts xs of Inl e \<Rightarrow> Inl e | Inr ts \<Rightarrow> Inr (Some t # ts)))"

text \<open>
  The conversion of unicode cells to float64 that \<^verbatim>\<open>pd.DataFrame(..., dtype='float64')\<close>
  does: a missing cell stays missing, a cell that is no number raises.
\<close>

fun floats_of_row :: "(string \<Rightarrow> 'f option) \<Rightarrow> string option list \<Rightarrow> exn + 'f option list" where
  "floats_of_row to_float [] = Inr []"
| "floats_of_row to_float (None # cs) =
     (case floats_of_row to_float cs of Inl e \<Rightarrow> Inl e | Inr vs \<Rightarrow> Inr (None # vs))"
| "floats_of_row to_float (Some s # cs) =
     (case to_float s of
        None \<Rightarrow> Inl (ValueError s)
      | Some v \<Rightarrow> (case floats_of_row to_float cs of Inl e \<Rightarrow> Inl e | Inr vs \<Rightarrow> Inr (Some v # vs)))"

fun floats_of_rows :: "(string \<Rightarrow> 'f option) \<Rightarrow> string option list list \<Rightarrow> exn + 'f option list list" where
  "floats_of_rows to_float [] = Inr []"
| "floats_of_rows to_float (r # rs) =
     (case floats_of_row to_float r of
        Inl e \<Rightarrow> Inl e
      | Inr v \<Rightarrow> (case floats_of_rows to_float rs of Inl e \<Rightarrow> Inl e | Inr vs \<Rightarrow> Inr (v # vs)))"

text \<open>
  \<^verbatim>\<open>df.drop(pd.NaT, inplace=True)\<close> inside \<^verbatim>\<open>try ... except: pass\<close>: the rows labelled NaT
  go; with no such row pandas raises and the frame stays as it is.
\<close>

definition drop_NaT :: "('t option, 'c) frame \<Rightarrow> ('t option, 'c) frame" where
  "drop_NaT df =
     (if None \<in> set (df_index df)
      then (let keep = map (\<lambda>t. t \<noteq> None) (df_index df)
            in df\<lparr>df_index := select keep (df_index df), df_values := select keep (df_values df)\<rparr>)
      else df)"

subsection \<open>read_campbell_scientific\<close>

text \<open>
  The body of the first \<^verbatim>\<open>try\<close> (lines 51 to 56). \<open>pd_read_csv\<close> stands for the call
  \<^verbatim>\<open>pd.read_csv(file_name, skiprows=1, encoding=encoding, index_col=index_col,
  parse_dates=True, dtype='unicode')\<close>: it raises, or yields the frame of the file's
  lines after the skipped first line, the next line naming the columns, every cell a
  unicode string or missing.
\<close>

definition read_campbell_scientific_try ::
  "(world \<Rightarrow> string \<Rightarrow> string option \<Rightarrow> string \<Rightarrow> exn + (string option, string option) frame) \<Rightarrow>
   (string \<Rightarrow> 't option) \<Rightarrow> (string \<Rightarrow> 'f option) \<Rightarrow>
   world \<Rightarrow> string \<Rightarrow> string \<Rightarrow> string option \<Rightarrow> exn + ('t option, 'f option) frame" where
  "read_campbell_scientific_try pd_read_csv parse_ts to_float w file_name index_col encoding =
     (case pd_read_csv w file_name encoding index_col of
        Inl e \<Rightarrow> Inl e
      | Inr df0 \<Rightarrow>
          (let df1 = df_rows_from 2 df0 in
           case to_datetime parse_ts (df_index df1) of
             Inl e \<Rightarrow> Inl e
           | Inr index \<Rightarrow>
               (let Unnamed = filter_regex_columns ''Unnamed'' df1;
                    df2 = drop_columns Unnamed df1
                in case floats_of_rows to_float (df_values df2) of
                     Inl e \<Rightarrow> Inl e
                   | Inr vs \<Rightarrow>
                       Inr \<lparr>df_index = index, df_columns = df_columns df2, df_values = vs\<rparr>)))"

text \<open>
  The function returns Python's \<open>None\<close> (here \<open>None\<close>) or a frame (\<open>Some df\<close>). The bare
  \<^verbatim>\<open>except:\<close> catches every exception of the \<^verbatim>\<open>try\<close>; its handler logs a warning, binds
  \<^verbatim>\<open>df\<close> to an empty frame and leaves through a bare \<^verbatim>\<open>return\<close>.
\<close>

definition read_campbell_scientific ::
  "(world \<Rightarrow> string \<Rightarrow> string option \<Rightarrow> string \<Rightarrow> exn + (string option, string option) frame) \<Rightarrow>
   (string \<Rightarrow> 't option) \<Rightarrow> (string \<Rightarrow> 'f option) \<Rightarrow>
   world \<Rightarrow> string \<Rightarrow> string \<Rightarrow> string option \<Rightarrow> world \<times> ('t option, 'f option) frame option" where
  "read_campbell_scientific pd_read_csv parse_ts to_float w file_name index_col encoding =
     (let w1 = logger_info (''Reading Campbell Scientific CSV file '' @ file_name) w
      in case read_campbell_scientific_try pd_read_csv parse_ts to_float w1 file_name index_col encoding of
           Inl e \<Rightarrow>
             (let w2 = logger_warning (''Cannot extract database, CSV file reader failed '' @ file_name) w1;
                  df = (DataFrame_empty :: ('t option, 'f option) frame)
              in (w2, None))
         | Inr df \<Rightarrow> (w1, Some (drop_NaT df)))"

subsection \<open>Writing frames as delimited text\<close>

text \<open>Python's \<^verbatim>\<open>str\<close> of an integer.\<close>

fun digits :: "nat \<Rightarrow> string" where
  "digits n =
     (if n < 10 then [char_of (48 + n)] else digits (n div 10) @ [char_of (48 + n mod 10)])"

definition str_int :: "int \<Rightarrow> string" where
  "str_int i = (if i < 0 then CHR ''-'' # digits (nat (- i)) else digits (nat i))"

text \<open>
  The records \<^verbatim>\<open>df.to_csv(fout, index_label=..., na_rep=...)\<close> hands to the csv writer,
  field by field: the header (the index label, then the column labels), then one record
  per row (the row's label, then its cells, a missing cell as \<open>na_rep\<close>). \<open>str_label\<close>
  and \<open>str_value\<close> are pandas' text of a label and of a cell that is present.
\<close>

definition csv_field :: "string \<Rightarrow> ('v \<Rightarrow> string) \<Rightarrow> 'v option \<Rightarrow> string" where
  "csv_field na_rep str_value c = (case c of None \<Rightarrow> na_rep | Some v \<Rightarrow> str_value v)"

definition to_csv_records ::
  "string \<Rightarrow> string \<Rightarrow> ('i \<Rightarrow> string) \<Rightarrow> ('v \<Rightarrow> string) \<Rightarrow> ('i, 'v option) frame \<Rightarrow> string list list" where
  "to_csv_records index_label na_rep str_label str_value df =
     (index_label # df_columns df) #
     map (\<lambda>(label, row). str_label label # map (csv_field na_rep str_value) row)
       (zip (df_index df) (df_values df))"

subsection \<open>write_metrics\<close>

text \<open>
  The cell of a frame at a row label and a column label; missing also where the frame
  has no such row or column, which is how pandas aligns a frame to labels it lacks.
  (On a frame with a label twice the first one is read; pandas refuses to align such a
  frame, so the model is meant for frames with distinct labels.)
\<close>

definition cell_at :: "('i, 'v option) frame \<Rightarrow> 'i \<Rightarrow> string \<Rightarrow> 'v option" where
  "cell_at df r c =
     (case map_of (zip (df_index df) (df_values df)) r of
        None \<Rightarrow> None
      | Some row \<Rightarrow> (case map_of (zip (df_columns df) row) c of None \<Rightarrow> None | Some v \<Rightarrow> v))"

text \<open>
  A row label of a metrics table as pandas holds it: a text or a number. Two labels are
  the same row only when they are equal as such: the number 1 and the text \<^verbatim>\<open>'1'\<close> are
  two rows, though both are written as \<^verbatim>\<open>1\<close>.
\<close>

datatype 'n label = Text string | Number 'n

definition label_text :: "('n \<Rightarrow> string) \<Rightarrow> 'n label \<Rightarrow> string" where
  "label_text str_number l = (case l of Text s \<Rightarrow> s | Number n \<Rightarrow> str_number n)"

text \<open>
  \<^verbatim>\<open>this.combine_first(other)\<close>: over the union of the row labels and of the column
  labels, the cell of \<open>this\<close> where it is present, else the cell of \<open>other\<close>.
  \<open>index_union\<close> and \<open>columns_union\<close> are pandas' \<^verbatim>\<open>Index.union\<close> on the two axes,
  which fixes the order of the labels.
\<close>

definition combine_first ::
  "('r list \<Rightarrow> 'r list \<Rightarrow> 'r list) \<Rightarrow> (string list \<Rightarrow> string list \<Rightarrow> string list) \<Rightarrow>
   ('r, 'v option) frame \<Rightarrow> ('r, 'v option) frame \<Rightarrow> ('r, 'v option) frame" where
  "combine_first index_union columns_union this other =
     (let new_index = index_union (df_index this) (df_index other);
          new_columns = columns_union (df_columns this) (df_columns other)
      in \<lparr>df_index = new_index, df_columns = new_columns,
          df_values =
            map (\<lambda>r. map (\<lambda>c. case cell_at this r c of
                                  Some v \<Rightarrow> Some v
                                | None \<Rightarrow> cell_at other r c) new_columns) new_index\<rparr>)"

text \<open>
  \<open>pd_read_csv\<close> stands for \<^verbatim>\<open>pd.read_csv(filename, index_col='TIMESTEP')\<close>. No
  \<^verbatim>\<open>dtype\<close> is given, so pandas infers the type of the row labels: a column of numerals
  comes back as numbers, any other column as text. \<open>to_native_types\<close> is the label
  that \<^verbatim>\<open>metrics.index.to_native_types()\<close> makes of one label of the new table (its
  text, for every index that is not of object dtype), \<open>str_number\<close> the text of a
  number, \<open>csv_text\<close> the csv writer (quoting, delimiters and line ends). The
  function assigns to \<^verbatim>\<open>metrics.index\<close>, so the caller's table comes back with the
  new labels; the merged table is local. The result is the world, the caller's table,
  and the exception if any.
\<close>

definition write_metrics ::
  "(world \<Rightarrow> string \<Rightarrow> string \<Rightarrow> exn + ('n label, 'v option) frame) \<Rightarrow>
   ('i \<Rightarrow> 'n label) \<Rightarrow> ('n label list \<Rightarrow> 'n label list \<Rightarrow> 'n label list) \<Rightarrow>
   (string list \<Rightarrow> string list \<Rightarrow> string list) \<Rightarrow>
   ('n \<Rightarrow> string) \<Rightarrow> ('v \<Rightarrow> string) \<Rightarrow> (string list list \<Rightarrow> string) \<Rightarrow>
   world \<Rightarrow> string \<Rightarrow> ('i, 'v option) frame \<Rightarrow>
   world \<times> ('n label, 'v option) frame \<times> (exn + unit)" where
  "write_metrics pd_read_csv to_native_types index_union columns_union str_number str_value csv_text
       w filename metrics =
     (let w1 = logger_info ''Write metrics file'' w;
          previous_metrics =
            (case pd_read_csv w1 filename ''TIMESTEP'' of
               Inl e \<Rightarrow> DataFrame_empty
             | Inr df \<Rightarrow> df);
          metrics1 = \<lparr>df_index = map to_native_types (df_index metrics),
                      df_columns = df_columns metrics, df_values = df_values metrics\<rparr>;
          metrics2 = combine_first index_union columns_union metrics1 previous_metrics
      in case write_file w1 filename
                (csv_text (to_csv_records ''TIMESTEP'' ''NaN'' (label_text str_number) str_value
                   metrics2)) of
           Inl e \<Rightarrow> (w1, metrics1, Inl e)
         | Inr w2 \<Rightarrow> (w2, metrics1, Inr ()))"

subsection \<open>write_test_results\<close>

text \<open>
  The key pandas sorts one cell by: a missing cell after every cell that is present
  (\<^verbatim>\<open>na_position='last'\<close>), cells that are present by their own order.
\<close>

definition na_last :: "'v option \<Rightarrow> bool \<times> 'v option" where
  "na_last c = (c = None, c)"

text \<open>The cell of a row under a column label.\<close>

definition row_cell :: "string list \<Rightarrow> 'v option list \<Rightarrow> string \<Rightarrow> 'v option" where
  "row_cell cols row c = (case map_of (zip cols row) c of None \<Rightarrow> None | Some v \<Rightarrow> v)"

definition row_key :: "string list \<Rightarrow> string list \<Rightarrow> 'v option list \<Rightarrow> (bool \<times> 'v option) list" where
  "row_key by_cols cols row = map (\<lambda>b. na_last (row_cell cols row b)) by_cols"

text \<open>
  \<^verbatim>\<open>df.sort_values(by, inplace=True)\<close> for a list of column labels: KeyError for a label
  that is no column; else the rows, each with its label, in ascending order of their
  keys, compared column by column in the order of \<open>by\<close>, rows of equal keys in their
  order on entry.
\<close>

definition sort_values ::
  "string list \<Rightarrow> ('i, ('v::linorder) option) frame \<Rightarrow> exn + ('i, 'v option) frame" where
  "sort_values by_cols df =
     (case filter (\<lambda>b. b \<notin> set (df_columns df)) by_cols of
        b # _ \<Rightarrow> Inl (KeyError (Key b))
      | [] \<Rightarrow>
          (let sorted_rows =
                 sort_key (\<lambda>(label, row). row_key by_cols (df_columns df) row)
                   (zip (df_index df) (df_values df))
           in Inr (df\<lparr>df_index := map fst sorted_rows, df_values := map snd sorted_rows\<rparr>)))"

text \<open>\<^verbatim>\<open>df.index = np.arange(1, df.shape[0]+1)\<close>\<close>

definition reindex_from_1 :: "('i, 'c) frame \<Rightarrow> (int, 'c) frame" where
  "reindex_from_1 df =
     \<lparr>df_index = map int [1 ..< length (df_index df) + 1],
      df_columns = df_columns df, df_values = df_values df\<rparr>"

text \<open>
  Lines 173 and 174 work on the caller's frame: the result carries that frame as the call
  leaves it, beside the world and the exception if any. \<open>str_value\<close> and \<open>csv_text\<close>
  are as in \<open>write_metrics\<close>.
\<close>

definition write_test_results ::
  "(('v::linorder) \<Rightarrow> string) \<Rightarrow> (string list list \<Rightarrow> string) \<Rightarrow>
   world \<Rightarrow> string \<Rightarrow> (int, 'v option) frame \<Rightarrow>
   world \<times> (int, 'v option) frame \<times> (exn + unit)" where
  "write_test_results str_value csv_text w filename test_results =
     (case sort_values [''System Name'', ''Variable Name''] test_results of
        Inl e \<Rightarrow> (w, test_results, Inl e)
      | Inr sorted_results \<Rightarrow>
          (let test_results1 = reindex_from_1 sorted_results;
               w1 = logger_info (''Writing test results csv file '' @ filename) w
           in case write_file w1 filename
                     (csv_text (to_csv_records [] ''NaN'' str_int str_value test_results1)) of
                Inl e \<Rightarrow> (w1, test_results1, Inl e)
              | Inr w2 \<Rightarrow> (w2, test_results1, Inr ())))"

subsection \<open>send_email\<close>

text \<open>\<^verbatim>\<open>sep.join(xs)\<close>\<close>

fun join :: "string \<Rightarrow> string list \<Rightarrow> string" where
  "join sep [] = []"
| "join sep [x] = x"
| "join sep (x # y # ys) = x @ sep @ join sep (y # ys)"

text \<open>\<^verbatim>\<open>s.lower()\<close> on the letters A to Z; every other character stays.\<close>

definition lower_char :: "char \<Rightarrow> char" where
  "lower_char c =
     (if CHR ''A'' \<le> c \<and> c \<le> CHR ''Z'' then char_of (of_char c + (32 :: nat)) else c)"

definition lower :: "string \<Rightarrow> string" where
  "lower s = map lower_char s"

text \<open>\<^verbatim>\<open>os.path.basename(p)\<close> (posixpath): what follows the last slash.\<close>

definition basename :: "string \<Rightarrow> string" where
  "basename p = rev (takeWhile (\<lambda>c. c \<noteq> CHR ''/'') (rev p))"

text \<open>
  The parts of a message: \<^verbatim>\<open>MIMEText(payload, subtype)\<close>, and
  \<^verbatim>\<open>MIMEApplication(data)\<close> with the file name of its Content-Disposition header.
\<close>

datatype mime_part = MIMEText string string | MIMEApplication string string


text \<open>Lines 109 to 112: the part that carries the body.\<close>

definition body_part :: "string \<Rightarrow> mime_part" where
  "body_part body =
     (if contains ''</html>'' (lower body) then MIMEText body ''html''
      else MIMEText body ''plain'')"





subsection \<open>write_monitoring_report\<close>

text \<open>
  The loops of lines 365 to 374 and 392 to 396: each image is opened and read, and its
  base64 text is stored under its path. An image that cannot be read raises; nothing in
  the module catches it. (\<^verbatim>\<open>data.encode("base64")\<close> is Python 2; \<open>b64\<close> stands for it.)
\<close>

fun encode_images ::
  "(string \<Rightarrow> string) \<Rightarrow> world \<Rightarrow> string list \<Rightarrow> (string \<rightharpoonup> string) \<Rightarrow> exn + (string \<rightharpoonup> string)" where
  "encode_images b64 w [] img_dic = Inr img_dic"
| "encode_images b64 w (im # ims) img_dic =
     (case read_file w im of
        Inl e \<Rightarrow> Inl e
      | Inr bytes \<Rightarrow> encode_images b64 w ims (img_dic(im \<mapsto> b64 bytes)))"

text \<open>The object \<^verbatim>\<open>pm\<close>: the data and the test results.\<close>

record ('t, 'f, 'v) PerformanceMonitoring =
  pm_df :: "('t, 'f option) frame"
  pm_test_results :: "(int, 'v option) frame"

text \<open>The dictionary \<^verbatim>\<open>content\<close> of lines 262 to 272, one field per key.\<close>

record report_content =
  content_start_time :: string
  content_end_time :: string
  content_num_notes :: string
  content_notes :: string
  content_num_test_results :: string
  content_test_results :: string
  content_test_results_graphics :: "string list"
  content_custom_graphics :: "string list"
  content_num_metrics :: string
  content_metrics :: string
  content_config :: "(string \<times> string) list"

text \<open>What \<^verbatim>\<open>template.render(**locals())\<close> binds for the report's template.\<close>

record report_locals =
  rl_content :: report_content
  rl_title :: string
  rl_logo :: "string option"
  rl_im_width_test_results :: int
  rl_im_width_custom :: int
  rl_encode :: bool
  rl_img_dic :: "string \<rightharpoonup> string"
  rl_datestr :: string
  rl_version :: string

text \<open>
  What the report takes from outside the module: \<^verbatim>\<open>str\<close> of a timestamp, the path of the
  log file beside the module, \<^verbatim>\<open>str.splitlines\<close>, \<^verbatim>\<open>DataFrame.to_html\<close> for each of the
  three tables, the base64 codec, the template \<^verbatim>\<open>monitoring_report.html\<close> with its
  renderer, today's date as \<^verbatim>\<open>%m/%d/%Y\<close> and \<^verbatim>\<open>pecos.__version__\<close>.
\<close>

record ('t, 'f, 'v) report_lib =
  str_timestamp :: "'t \<Rightarrow> string"
  logfile :: string
  splitlines :: "string \<Rightarrow> string list"
  test_results_to_html :: "(int, 'v option) frame \<Rightarrow> string"
  metrics_to_html :: "(string, 'f option) frame \<Rightarrow> string"
  notes_to_html :: "(int, string) frame \<Rightarrow> string"
  base64 :: "string \<Rightarrow> string"
  render_report :: "report_locals \<Rightarrow> string"
  datestr :: string
  version :: string

definition html_template_monitoring_report ::
  "('t, 'f, 'v) report_lib \<Rightarrow> world \<Rightarrow> report_content \<Rightarrow> string \<Rightarrow> string option \<Rightarrow> int \<Rightarrow> int \<Rightarrow>
   bool \<Rightarrow> exn + string" where
  "html_template_monitoring_report lib w content title logo im_width_test_results im_width_custom
       encode =
     (case (if encode
            then (case encode_images (base64 lib) w (content_custom_graphics content) Map.empty of
                    Inl e \<Rightarrow> Inl e
                  | Inr img_dic \<Rightarrow>
                      encode_images (base64 lib) w (content_test_results_graphics content) img_dic)
            else Inr Map.empty) of
        Inl e \<Rightarrow> Inl e
      | Inr img_dic \<Rightarrow>
          Inr (render_report lib
                 \<lparr>rl_content = content, rl_title = title, rl_logo = logo,
                  rl_im_width_test_results = im_width_test_results,
                  rl_im_width_custom = im_width_custom, rl_encode = encode,
                  rl_img_dic = img_dic, rl_datestr = datestr lib, rl_version = version lib\<rparr>))"

text \<open>
  Lines 242 to 250: the notes are the lines of the log file, numbered from 1, in one
  column; an empty frame when the file cannot be read.
\<close>

definition collect_notes :: "('t, 'f, 'v) report_lib \<Rightarrow> world \<Rightarrow> (int, string) frame" where
  "collect_notes lib w =
     (case read_file w (logfile lib) of
        Inl e \<Rightarrow> DataFrame_empty
      | Inr notes \<Rightarrow>
          (let ls = splitlines lib notes
           in if ls = [] then DataFrame_empty
              else \<lparr>df_index = map int [1 ..< length ls + 1], df_columns = [''0''],
                    df_values = map (\<lambda>l. [l]) ls\<rparr>))"

text \<open>
  Lines 252 and 253 work on \<^verbatim>\<open>pm.test_results\<close>, the caller's frame: the result carries
  that frame as the call leaves it, beside the world and the exception if any.
  (The two \<^verbatim>\<open>pd.set_option\<close> calls set display options of pandas, which \<open>to_html\<close>
  reads; they are part of the \<open>to_html\<close> parameters.)
\<close>

definition write_monitoring_report ::
  "('t, 'f, ('v::linorder)) report_lib \<Rightarrow> world \<Rightarrow> string \<Rightarrow> ('t, 'f, 'v) PerformanceMonitoring \<Rightarrow>
   string list \<Rightarrow> string list \<Rightarrow> (string, 'f option) frame option \<Rightarrow> string \<Rightarrow>
   (string \<times> string) list \<Rightarrow> string option \<Rightarrow> int \<Rightarrow> int \<Rightarrow> bool \<Rightarrow>
   world \<times> (int, 'v option) frame \<times> (exn + unit)" where
  "write_monitoring_report lib w filename pm test_results_graphics custom_graphics metrics title
       config logo im_width_test_results im_width_custom encode =
     (let w1 = logger_info ''Writing HTML report'' w;
          (w2, start_time, end_time) =
            (if df_empty (pm_df pm)
             then (logger_warning ''Empty database'' w1, ''NaN'', ''NaN'')
             else (w1, str_timestamp lib (hd (df_index (pm_df pm))),
                   str_timestamp lib (last (df_index (pm_df pm)))));
          notes_df = collect_notes lib w2
      in case sort_values [''System Name'', ''Variable Name''] (pm_test_results pm) of
           Inl e \<Rightarrow> (w2, pm_test_results pm, Inl e)
         | Inr sorted_results \<Rightarrow>
             (let test_results1 = reindex_from_1 sorted_results;
                  metrics1 = (case metrics of None \<Rightarrow> DataFrame_empty | Some m \<Rightarrow> m);
                  content =
                    \<lparr>content_start_time = start_time,
                     content_end_time = end_time,
                     content_num_notes = str_int (int (length (df_index notes_df))),
                     content_notes = notes_to_html lib notes_df,
                     content_num_test_results = str_int (int (length (df_index test_results1))),
                     content_test_results = test_results_to_html lib test_results1,
                     content_test_results_graphics = test_results_graphics,
                     content_custom_graphics = custom_graphics,
                     content_num_metrics = str_int (int (length (df_index metrics1))),
                     content_metrics = metrics_to_html lib metrics1,
                     content_config = config\<rparr>
              in case html_template_monitoring_report lib w2 content (basename title) logo
                        im_width_test_results im_width_custom encode of
                   Inl e \<Rightarrow> (w2, test_results1, Inl e)
                 | Inr html_string \<Rightarrow>
                     (case write_file w2 filename html_string of
                        Inl e \<Rightarrow> (w2, test_results1, Inl e)
                      | Inr w3 \<Rightarrow> (logger_info [] w3, test_results1, Inr ()))))"

subsection \<open>write_dashboard\<close>

text \<open>
  The dictionary of one cell: each of the documented keys is there or not
  (\<^verbatim>\<open>text\<close>, \<^verbatim>\<open>graphics\<close>, \<^verbatim>\<open>table\<close>, \<^verbatim>\<open>link\<close>, \<^verbatim>\<open>link text\<close>).
\<close>

record dashboard_cell =
  cell_text :: "string option"
  cell_graphics :: "string list option"
  cell_table :: "string option"
  cell_link :: "string option"
  cell_link_text :: "string option"

record dashboard_locals =
  dl_column_names :: "string list"
  dl_row_names :: "string list"
  dl_content :: "(string \<times> string) \<rightharpoonup> dashboard_cell"
  dl_title :: string
  dl_footnote :: string
  dl_logo :: "string option"
  dl_im_width :: int
  dl_datatables :: bool
  dl_encode :: bool
  dl_img_dic :: "string \<rightharpoonup> string"
  dl_datestr :: string
  dl_version :: string

text \<open>
  Lines 390 to 396 over the pairs in the order the loops visit them: the cell is looked
  up under \<^verbatim>\<open>(row, column)\<close>, then \<^verbatim>\<open>'graphics'\<close> in the cell, each a KeyError when
  absent, then each image is read.
\<close>

fun encode_cells ::
  "(string \<Rightarrow> string) \<Rightarrow> world \<Rightarrow> ((string \<times> string) \<rightharpoonup> dashboard_cell) \<Rightarrow>
   (string \<times> string) list \<Rightarrow> (string \<rightharpoonup> string) \<Rightarrow> exn + (string \<rightharpoonup> string)" where
  "encode_cells b64 w content [] img_dic = Inr img_dic"
| "encode_cells b64 w content ((row, column) # rest) img_dic =
     (case content (row, column) of
        None \<Rightarrow> Inl (KeyError (KeyPair row column))
      | Some cell \<Rightarrow>
          (case cell_graphics cell of
             None \<Rightarrow> Inl (KeyError (Key ''graphics''))
           | Some ims \<Rightarrow>
               (case encode_images b64 w ims img_dic of
                  Inl e \<Rightarrow> Inl e
                | Inr img_dic1 \<Rightarrow> encode_cells b64 w content rest img_dic1)))"



text \<open>\<^verbatim>\<open>for column in column_names: for row in row_names:\<close> visits these pairs in this order.\<close>

definition loop_pairs :: "string list \<Rightarrow> string list \<Rightarrow> (string \<times> string) list" where
  "loop_pairs column_names row_names =
     concat (map (\<lambda>column. map (\<lambda>row. (row, column)) row_names) column_names)"

definition html_template_dashboard ::
  "(string \<Rightarrow> string) \<Rightarrow> (dashboard_locals \<Rightarrow> string) \<Rightarrow> string \<Rightarrow> string \<Rightarrow>
   world \<Rightarrow> string list \<Rightarrow> string list \<Rightarrow> ((string \<times> string) \<rightharpoonup> dashboard_cell) \<Rightarrow> string \<Rightarrow>
   string \<Rightarrow> string option \<Rightarrow> int \<Rightarrow> bool \<Rightarrow> bool \<Rightarrow> exn + string" where
  "html_template_dashboard b64 render_dashboard date_str pecos_version w column_names row_names
       content title footnote logo im_width datatables encode =
     (case (if encode
            then encode_cells b64 w content (loop_pairs column_names row_names) Map.empty
            else Inr Map.empty) of
        Inl e \<Rightarrow> Inl e
      | Inr img_dic \<Rightarrow>
          Inr (render_dashboard
                 \<lparr>dl_column_names = column_names, dl_row_names = row_names,
                  dl_content = content, dl_title = title, dl_footnote = footnote,
                  dl_logo = logo, dl_im_width = im_width, dl_datatables = datatables,
                  dl_encode = encode, dl_img_dic = img_dic, dl_datestr = date_str,
                  dl_version = pecos_version\<rparr>))"

definition write_dashboard ::
  "(string \<Rightarrow> string) \<Rightarrow> (dashboard_locals \<Rightarrow> string) \<Rightarrow> string \<Rightarrow> string \<Rightarrow>
   world \<Rightarrow> string \<Rightarrow> string list \<Rightarrow> string list \<Rightarrow> ((string \<times> string) \<rightharpoonup> dashboard_cell) \<Rightarrow>
   string \<Rightarrow> string \<Rightarrow> string option \<Rightarrow> int \<Rightarrow> bool \<Rightarrow> bool \<Rightarrow> world \<times> (exn + unit)" where
  "write_dashboard b64 render_dashboard date_str pecos_version w filename column_names row_names
       content title footnote logo im_width datatables encode =
     (let w1 = logger_info ''Writing dashboard'' w
      in case html_template_dashboard b64 render_dashboard date_str pecos_version w1 column_names
                row_names content title footnote logo im_width datatables encode of
           Inl e \<Rightarrow> (w1, Inl e)
         | Inr html_string \<Rightarrow>
             (case write_file w1 filename html_string of
                Inl e \<Rightarrow> (w1, Inl e)
              | Inr w2 \<Rightarrow> (logger_info [] w2, Inr ())))"

subsection \<open>A small world for the examples\<close>

text \<open>
  The examples below run the functions on concrete inputs. They need concrete stand-ins
  for the library calls: a \<open>read_csv\<close> that knows the frames of a few files and raises
  IOError on every other path, parsers given by finite tables, and a world with no file
  in which every path can be written.
\<close>

definition read_csv_stub ::
  "(string \<times> (string option, string option) frame) list \<Rightarrow>
   world \<Rightarrow> string \<Rightarrow> string option \<Rightarrow> string \<Rightarrow> exn + (string option, string option) frame" where
  "read_csv_stub parsed w file_name encoding index_col =
     (case map_of parsed file_name of None \<Rightarrow> Inl (IOError file_name) | Some df \<Rightarrow> Inr df)"

definition empty_world :: world where
  "empty_world = \<lparr>files = Map.empty, writable = (\<lambda>path. True), logged = []\<rparr>"

text \<open>
  The frame pandas reads from a logger file of seven lines: the line that is skipped, the
  header \<^verbatim>\<open>"TIMESTAMP","RECORD",""\<close>, the two lines of units and sampling types, and
  three records, the second and third with the same timestamp, earlier than the first.
\<close>

definition ex_raw :: "(string option, string option) frame" where
  "ex_raw =
     \<lparr>df_index = [Some ''TS'', None, Some ''2016-10-17 00:02'', Some ''2016-10-17 00:01'',
                  Some ''2016-10-17 00:01''],
      df_columns = [''RECORD'', ''Unnamed: 2''],
      df_values = [[Some ''RN'', None], [None, Some ''Smp''], [Some ''1'', None],
                   [Some ''2'', None], [Some ''3'', None]]\<rparr>"

text \<open>Timestamps as minutes of the day, floats as whole numbers.\<close>

definition ex_parse_ts :: "string \<Rightarrow> nat option" where
  "ex_parse_ts = map_of [(''2016-10-17 00:01'', 1), (''2016-10-17 00:02'', 2)]"

definition ex_to_float :: "string \<Rightarrow> int option" where
  "ex_to_float = map_of [(''1'', 1), (''2'', 2), (''3'', 3)]"

text \<open>
  For \<open>write_metrics\<close>: a \<open>read_csv\<close> that knows the tables of a few files, a union of
  labels that keeps the order of the first list and appends the new labels of the second,
  cells that are their own text, and a csv writer for fields that need no quoting.
\<close>

definition read_metrics_stub ::
  "(string \<times> (int label, string option) frame) list \<Rightarrow>
   world \<Rightarrow> string \<Rightarrow> string \<Rightarrow> exn + (int label, string option) frame" where
  "read_metrics_stub parsed w filename index_col =
     (case map_of parsed filename of None \<Rightarrow> Inl (IOError filename) | Some df \<Rightarrow> Inr df)"

definition ex_index_union :: "'a list \<Rightarrow> 'a list \<Rightarrow> 'a list" where
  "ex_index_union a b = a @ filter (\<lambda>x. x \<notin> set a) b"

definition ex_str :: "string \<Rightarrow> string" where
  "ex_str v = v"

definition ex_csv_text :: "string list list \<Rightarrow> string" where
  "ex_csv_text records = concat (map (\<lambda>r. join '','' r @ ''\<newline>'') records)"





text \<open>
  A metrics file \<^verbatim>\<open>n.csv\<close> whose one row has the label 1, which pandas reads back as a
  number; and the table of a new run with the one row 1, whose label is text once
  \<open>to_native_types\<close> has made it so.
\<close>

definition ex_numbered_world :: world where
  "ex_numbered_world =
     \<lparr>files = [''n.csv'' \<mapsto> ''TIMESTEP,QCI\<newline>1,0.9\<newline>''],
      writable = (\<lambda>path. True), logged = []\<rparr>"

definition ex_prior_numbered :: "(int label, string option) frame" where
  "ex_prior_numbered =
     \<lparr>df_index = [Number 1], df_columns = [''QCI''], df_values = [[Some ''0.9'']]\<rparr>"

definition ex_new_numbered :: "(int, string option) frame" where
  "ex_new_numbered = \<lparr>df_index = [1], df_columns = [''QCI''], df_values = [[Some ''0.5'']]\<rparr>"

definition ex_native_int :: "int \<Rightarrow> int label" where
  "ex_native_int i = Text (str_int i)"

text \<open>
  Test results of three rows, out of order and with arbitrary row labels; the same
  frame sorted by system and variable and numbered from 1; and a monitoring object with
  two data rows and these test results.
\<close>

definition ex_test_results :: "(int, string option) frame" where
  "ex_test_results =
     \<lparr>df_index = [7, 7, 0],
      df_columns = [''System Name'', ''Variable Name'', ''Error Flag''],
      df_values = [[Some ''B'', Some ''x'', None],
                   [Some ''A'', Some ''y'', Some ''Corrupt data''],
                   [Some ''A'', Some ''x'', Some ''Missing data'']]\<rparr>"

definition ex_test_results_after :: "(int, string option) frame" where
  "ex_test_results_after =
     \<lparr>df_index = [1, 2, 3],
      df_columns = [''System Name'', ''Variable Name'', ''Error Flag''],
      df_values = [[Some ''A'', Some ''x'', Some ''Missing data''],
                   [Some ''A'', Some ''y'', Some ''Corrupt data''],
                   [Some ''B'', Some ''x'', None]]\<rparr>"

definition ex_pm :: "(nat, int, string) PerformanceMonitoring" where
  "ex_pm =
     \<lparr>pm_df = \<lparr>df_index = [1, 2], df_columns = [''Power''], df_values = [[Some 5], [None]]\<rparr>,
      pm_test_results = ex_test_results\<rparr>"

text \<open>
  For the report: a template that prints the title and the two times, tables rendered
  as fixed text, a codec that leaves the bytes as they are.
\<close>

definition ex_render_report :: "report_locals \<Rightarrow> string" where
  "ex_render_report l =
     rl_title l @ '': '' @ content_start_time (rl_content l) @ '' to '' @
     content_end_time (rl_content l)"

definition ex_report_lib :: "(nat, int, string) report_lib" where
  "ex_report_lib =
     \<lparr>str_timestamp = (\<lambda>t. str_int (int t)),
      logfile = ''pecos/logfile'',
      splitlines = (\<lambda>s. [s]),
      test_results_to_html = (\<lambda>df. ''<table>test results</table>''),
      metrics_to_html = (\<lambda>df. ''<table>metrics</table>''),
      notes_to_html = (\<lambda>df. ''<table>notes</table>''),
      base64 = ex_str,
      render_report = ex_render_report,
      datestr = ''11/04/2026'',
      version = ''0.1''\<rparr>"




text \<open>A monitoring object whose data table is empty.\<close>

definition ex_pm_empty :: "(nat, int, string) PerformanceMonitoring" where
  "ex_pm_empty = \<lparr>pm_df = DataFrame_empty, pm_test_results = ex_test_results\<rparr>"

text \<open>
  For the dashboard: a template that prints the title; a cell with a text and nothing
  else; a cell with one graphics file, which does not exist; and a content dictionary
  for each, under the key \<^verbatim>\<open>('X', 'A')\<close>.
\<close>

definition ex_render_dashboard :: "dashboard_locals \<Rightarrow> string" where
  "ex_render_dashboard l = dl_title l"


definition ex_cell_plot :: dashboard_cell where
  "ex_cell_plot =
     \<lparr>cell_text = None, cell_graphics = Some [''missing.png''], cell_table = None,
      cell_link = None, cell_link_text = None\<rparr>"


definition ex_content_plot :: "(string \<times> string) \<rightharpoonup> dashboard_cell" where
  "ex_content_plot = [(''X'', ''A'') \<mapsto> ex_cell_plot]"

section \<open>Properties\<close>

subsection \<open>Auxiliary facts\<close>

lemma to_datetime_all_parse:
  "\<forall>x \<in> set xs. \<exists>s t. x = Some s \<and> p s = Some t \<Longrightarrow>
   to_datetime p xs = Inr (map (\<lambda>x. Option.bind x p) xs)"
  by (induction p xs rule: to_datetime.induct) (auto split: sum.splits option.splits)

lemma floats_of_row_ok:
  "list_all (\<lambda>c. case c of None \<Rightarrow> True | Some s \<Rightarrow> f s \<noteq> None) cs \<Longrightarrow>
   floats_of_row f cs = Inr (map (\<lambda>c. Option.bind c f) cs)"
  by (induction f cs rule: floats_of_row.induct) (auto split: sum.splits option.splits)

lemma floats_of_rows_ok:
  "list_all (list_all (\<lambda>c. case c of None \<Rightarrow> True | Some s \<Rightarrow> f s \<noteq> None)) rs \<Longrightarrow>
   floats_of_rows f rs = Inr (map (map (\<lambda>c. Option.bind c f)) rs)"
proof (induction rs)
  case Nil
  then show ?case by simp
next
  case (Cons r rs)
  from Cons.prems have r: "floats_of_row f r = Inr (map (\<lambda>c. Option.bind c f) r)"
    by (intro floats_of_row_ok) simp
  from Cons.prems Cons.IH have rs: "floats_of_rows f rs = Inr (map (map (\<lambda>c. Option.bind c f)) rs)"
    by simp
  show ?case by (simp add: r rs)
qed

lemma select_map_pred: "select (map P xs) xs = filter P xs"
  unfolding select_def by (induction xs) auto

lemma select_length:
  "length xs = length bs \<Longrightarrow> length (select bs xs) = length (filter (\<lambda>b. b) bs)"
  unfolding select_def by (induction xs bs rule: list_induct2) auto

lemma drop_NaT_id: "None \<notin> set (df_index df) \<Longrightarrow> drop_NaT df = df"
  by (simp add: drop_NaT_def)


lemma sort_values_ok:
  assumes "set by_cols \<subseteq> set (df_columns df)"
  shows "sort_values by_cols df =
           Inr (df\<lparr>df_index := map fst (sort_key (\<lambda>(label, row). row_key by_cols (df_columns df) row)
                                          (zip (df_index df) (df_values df))),
                   df_values := map snd (sort_key (\<lambda>(label, row). row_key by_cols (df_columns df) row)
                                          (zip (df_index df) (df_values df)))\<rparr>)"
proof -
  have "filter (\<lambda>b. b \<notin> set (df_columns df)) by_cols = []"
    using assms by (auto simp: filter_empty_conv)
  then show ?thesis by (simp add: sort_values_def Let_def)
qed

lemma sort_values_reindexed:
  fixes df :: "('i, ('v::linorder) option) frame"
  assumes cols: "set by_cols \<subseteq> set (df_columns df)" and shaped: "well_shaped df"
  shows "\<exists>sorted_df. sort_values by_cols df = Inr sorted_df \<and>
           df_index (reindex_from_1 sorted_df) = map int [1 ..< length (df_index df) + 1] \<and>
           df_columns (reindex_from_1 sorted_df) = df_columns df \<and>
           mset (df_values (reindex_from_1 sorted_df)) = mset (df_values df) \<and>
           sorted (map (row_key by_cols (df_columns df)) (df_values (reindex_from_1 sorted_df))) \<and>
           well_shaped (reindex_from_1 sorted_df)"
proof -
  let ?k = "\<lambda>(label :: 'i, row). row_key by_cols (df_columns df) row"
  let ?s = "sort_key ?k (zip (df_index df) (df_values df))"
  let ?sorted = "df\<lparr>df_index := map fst ?s, df_values := map snd ?s\<rparr>"
  have len: "length (df_values df) = length (df_index df)"
    using shaped by (simp add: well_shaped_def)
  have eq: "sort_values by_cols df = Inr ?sorted"
    using cols by (rule sort_values_ok)
  have keys: "map (row_key by_cols (df_columns df)) (map snd ?s) = map ?k ?s"
    by (simp add: case_prod_beta comp_def)
  have srt: "sorted (map (row_key by_cols (df_columns df)) (map snd ?s))"
    unfolding keys by (rule sorted_sort_key)
  have "mset (map snd ?s) = mset (map snd (zip (df_index df) (df_values df)))"
    by (metis mset_map mset_sort)
  then have ms: "mset (map snd ?s) = mset (df_values df)"
    using len by simp
  have setv: "set (map snd ?s) = set (df_values df)"
    using ms by (metis set_mset_mset)
  have lens: "length (map snd ?s) = length (df_index df)"
    using len by simp
  have idx: "map int [1 ..< length (map fst ?s) + 1] = map int [1 ..< length (df_index df) + 1]"
    using len by (simp del: upt_Suc)
  have n: "length (map int [1 ..< length (df_index df) + 1]) = length (df_index df)"
    by (simp del: upt_Suc)
  have rows_ok: "list_all (\<lambda>row. length row = length (df_columns df)) (map snd ?s)"
    using shaped setv unfolding well_shaped_def list_all_iff by blast
  have shp: "well_shaped (reindex_from_1 ?sorted)"
    unfolding well_shaped_def reindex_from_1_def using idx n lens rows_ok by (simp del: length_upt length_map upt_Suc)
  have "df_index (reindex_from_1 ?sorted) = map int [1 ..< length (df_index df) + 1]"
    using idx by (simp add: reindex_from_1_def)
  moreover have "df_columns (reindex_from_1 ?sorted) = df_columns df"
    and "df_values (reindex_from_1 ?sorted) = map snd ?s"
    by (simp_all add: reindex_from_1_def)
  ultimately show ?thesis
    using eq srt ms shp by (intro exI[of _ ?sorted]) (simp del: upt_Suc)
qed

lemma pair_key_le:
  fixes a b c d :: "'k::linorder"
  shows "[a, b] \<le> [c, d] \<longleftrightarrow> (a, b) \<le> (c, d)"
  by (auto simp: less_eq_prod_def)

lemma sorted_row_key_pair:
  fixes rows :: "('v::linorder) option list list"
  shows "sorted (map (row_key [p, q] cols) rows) \<longleftrightarrow>
         sorted (map (\<lambda>row. (na_last (row_cell cols row p), na_last (row_cell cols row q))) rows)"
proof -
  have "row_key [p, q] cols x \<le> row_key [p, q] cols y \<longleftrightarrow>
        (na_last (row_cell cols x p), na_last (row_cell cols x q))
          \<le> (na_last (row_cell cols y p), na_last (row_cell cols y q))" for x y :: "'v option list"
    unfolding row_key_def list.map by (rule pair_key_le)
  then show ?thesis
    unfolding sorted_map by simp
qed

lemma contains_sublist: "contains sub s \<longleftrightarrow> sublist sub s"
  by (induction s) (simp_all add: sublist_Cons_right)

lemma sublist_map_iff:
  "sublist t (map f s) \<longleftrightarrow> (\<exists>u. sublist u s \<and> map f u = t)"
proof
  assume "sublist t (map f s)"
  then obtain ps ss where "map f s = ps @ t @ ss"
    by (auto simp: sublist_def)
  then obtain ps' r where s: "s = ps' @ r" and r: "map f r = t @ ss"
    by (metis map_eq_append_conv)
  from r obtain u ss' where "r = u @ ss'" and "map f u = t"
    by (metis map_eq_append_conv)
  with s show "\<exists>u. sublist u s \<and> map f u = t"
    by (auto simp: sublist_def)
next
  assume "\<exists>u. sublist u s \<and> map f u = t"
  then obtain u ps ss where "s = ps @ u @ ss" and "map f u = t"
    by (auto simp: sublist_def)
  then have "map f s = map f ps @ t @ map f ss"
    by simp
  then show "sublist t (map f s)"
    unfolding sublist_def by blast
qed

lemma encode_images_Inl:
  "encode_images b64 w ims d = Inl e \<Longrightarrow> \<exists>im \<in> set ims. e = IOError im \<and> files w im = None"
  by (induction b64 w ims d rule: encode_images.induct)
     (auto simp: read_file_def split: option.splits sum.splits)

lemma encode_images_unreadable:
  "im \<in> set ims \<Longrightarrow> files w im = None \<Longrightarrow> \<exists>e. encode_images b64 w ims d = Inl e"
  by (induction b64 w ims d rule: encode_images.induct)
     (auto simp: read_file_def split: option.splits sum.splits)

lemma encode_images_readable:
  "\<forall>im \<in> set ims. files w im \<noteq> None \<Longrightarrow> \<exists>d'. encode_images b64 w ims d = Inr d'"
  by (induction b64 w ims d rule: encode_images.induct)
     (auto simp: read_file_def split: option.splits sum.splits)

lemma html_template_monitoring_report_unreadable:
  assumes "im \<in> set (content_custom_graphics content) \<union> set (content_test_results_graphics content)"
    and "files w im = None"
  shows "\<exists>im'. html_template_monitoring_report lib w content title logo wt wc True = Inl (IOError im') \<and>
           im' \<in> set (content_custom_graphics content) \<union> set (content_test_results_graphics content) \<and>
           files w im' = None"
proof (cases "encode_images (base64 lib) w (content_custom_graphics content) Map.empty")
  case (Inl e)
  then show ?thesis
    using encode_images_Inl[OF Inl] by (auto simp: html_template_monitoring_report_def)
next
  case (Inr d)
  then have "im \<notin> set (content_custom_graphics content)"
    using encode_images_unreadable[OF _ assms(2), of "content_custom_graphics content" "base64 lib" Map.empty]
    by auto
  then have "im \<in> set (content_test_results_graphics content)"
    using assms(1) by simp
  from encode_images_unreadable[OF this assms(2)]
  obtain e where e: "encode_images (base64 lib) w (content_test_results_graphics content) d = Inl e"
    by blast
  from encode_images_Inl[OF e] show ?thesis
    using Inr e by (auto simp: html_template_monitoring_report_def)
qed

lemma html_template_monitoring_report_readable:
  assumes "encode \<longrightarrow> (\<forall>im \<in> set (content_custom_graphics content) \<union> set (content_test_results_graphics content).
                         files w im \<noteq> None)"
  shows "\<exists>img_dic. html_template_monitoring_report lib w content title logo wt wc encode =
           Inr (render_report lib
                  \<lparr>rl_content = content, rl_title = title, rl_logo = logo,
                   rl_im_width_test_results = wt, rl_im_width_custom = wc, rl_encode = encode,
                   rl_img_dic = img_dic, rl_datestr = datestr lib, rl_version = version lib\<rparr>)"
proof (cases encode)
  case False
  then show ?thesis by (auto simp: html_template_monitoring_report_def)
next
  case True
  with assms have c: "\<forall>im \<in> set (content_custom_graphics content). files w im \<noteq> None"
    and t: "\<forall>im \<in> set (content_test_results_graphics content). files w im \<noteq> None"
    by auto
  from encode_images_readable[OF c] obtain d where
    d: "encode_images (base64 lib) w (content_custom_graphics content) Map.empty = Inr d"
    by blast
  from encode_images_readable[OF t] obtain d' where
    d': "encode_images (base64 lib) w (content_test_results_graphics content) d = Inr d'"
    by blast
  show ?thesis
    using True d d' by (auto simp: html_template_monitoring_report_def)
qed

lemma encode_cells_Inl:
  "encode_cells b64 w content pairs d = Inl e \<Longrightarrow>
   (\<exists>k. e = KeyError k) \<or>
   (\<exists>im p cell ims. e = IOError im \<and> p \<in> set pairs \<and> content p = Some cell \<and>
        cell_graphics cell = Some ims \<and> im \<in> set ims \<and> files w im = None)"
proof (induction b64 w content pairs d rule: encode_cells.induct)
  case (1 b64 w content img_dic)
  then show ?case by simp
next
  case (2 b64 w content row column rest img_dic)
  show ?case
  proof (cases "content (row, column)")
    case None
    with "2.prems" show ?thesis by auto
  next
    case (Some cell)
    show ?thesis
    proof (cases "cell_graphics cell")
      case None
      with Some "2.prems" show ?thesis by auto
    next
      case ims: (Some ims)
      show ?thesis
      proof (cases "encode_images b64 w ims img_dic")
        case (Inl e')
        with Some ims "2.prems" have "e = e'" by simp
        from encode_images_Inl[OF Inl] obtain im where
          im: "im \<in> set ims" "e' = IOError im" "files w im = None"
          by blast
        have "e = IOError im \<and> (row, column) \<in> set ((row, column) # rest) \<and>
              content (row, column) = Some cell \<and> cell_graphics cell = Some ims \<and>
              im \<in> set ims \<and> files w im = None"
          using im \<open>e = e'\<close> Some ims by simp
        then show ?thesis
          by blast
      next
        case (Inr d')
        with Some ims "2.prems" have "encode_cells b64 w content rest d' = Inl e" by simp
        from "2.IH"[OF Some ims Inr this]
        consider k where "e = KeyError k"
          | im p cell' ims' where "e = IOError im" "p \<in> set rest" "content p = Some cell'"
              "cell_graphics cell' = Some ims'" "im \<in> set ims'" "files w im = None"
          by blast
        then show ?thesis
        proof cases
          case 1
          then show ?thesis by blast
        next
          case 2
          then have "e = IOError im \<and> p \<in> set ((row, column) # rest) \<and> content p = Some cell' \<and>
                     cell_graphics cell' = Some ims' \<and> im \<in> set ims' \<and> files w im = None"
            by simp
          then show ?thesis by blast
        qed
      qed
    qed
  qed
qed

lemma encode_cells_bad_pair:
  "p \<in> set pairs \<Longrightarrow>
   content p = None \<or> (\<exists>cell. content p = Some cell \<and> cell_graphics cell = None) \<Longrightarrow>
   \<exists>e. encode_cells b64 w content pairs d = Inl e"
  by (induction b64 w content pairs d rule: encode_cells.induct)
     (auto split: option.splits sum.splits)







subsection \<open>read_campbell_scientific\<close>

text \<open>
  C1. When the parsing of lines 51 to 56 raises, whatever the exception,
  \<open>read_campbell_scientific\<close> does not raise and logs a warning after its info record;
  what it returns is Python's \<open>None\<close>, not a table: the handler binds an empty frame
  to \<^verbatim>\<open>df\<close> and then leaves through a bare \<^verbatim>\<open>return\<close>. The claim's empty table is
  not what the caller gets.
\<close>

theorem read_campbell_scientific_failure_returns_None:
  assumes "read_campbell_scientific_try pd_read_csv parse_ts to_float
             (logger_info (''Reading Campbell Scientific CSV file '' @ file_name) w)
             file_name index_col encoding = Inl e"
  shows "read_campbell_scientific pd_read_csv parse_ts to_float w file_name index_col encoding =
           (w\<lparr>logged := logged w @
                [(INFO, ''Reading Campbell Scientific CSV file '' @ file_name),
                 (WARNING, ''Cannot extract database, CSV file reader failed '' @ file_name)]\<rparr>,
            None)"
  using assms
  by (simp add: read_campbell_scientific_def logger_info_def logger_warning_def Let_def)

theorem read_campbell_scientific_failure_returns_None_witness:
  "read_campbell_scientific (read_csv_stub []) ex_parse_ts ex_to_float empty_world
       ''missing.dat'' ''TIMESTAMP'' None =
     (empty_world\<lparr>logged := logged empty_world @
         [(INFO, ''Reading Campbell Scientific CSV file '' @ ''missing.dat''),
          (WARNING, ''Cannot extract database, CSV file reader failed '' @ ''missing.dat'')]\<rparr>,
      None)"
proof -
  have "read_campbell_scientific_try (read_csv_stub []) ex_parse_ts ex_to_float
          (logger_info (''Reading Campbell Scientific CSV file '' @ ''missing.dat'') empty_world)
          ''missing.dat'' ''TIMESTAMP'' None = Inl (IOError ''missing.dat'')"
    by (simp add: read_campbell_scientific_try_def read_csv_stub_def)
  then show ?thesis
    by (rule read_campbell_scientific_failure_returns_None)
qed

text \<open>
  C3, as the code has it. When pandas reads the file (the frame \<open>raw\<close>: every line after
  the skipped one and the header), every record after the two lines of units has a
  timestamp that parses, and every cell of a column that is kept is a number or missing,
  the function returns a table with one row per record (all of \<open>raw\<close> but its first two
  rows), the columns whose label does not contain \<^verbatim>\<open>Unnamed\<close>, float cells, and as index
  the parsed timestamps in the order of the file, none of them NaT. Nothing sorts the
  rows or removes a timestamp that occurs twice.
\<close>

theorem read_campbell_scientific_valid_file:
  fixes parse_ts :: "string \<Rightarrow> 't option" and to_float :: "string \<Rightarrow> 'f option"
  assumes raw: "pd_read_csv (logger_info (''Reading Campbell Scientific CSV file '' @ file_name) w)
                  file_name encoding index_col = Inr raw"
    and shaped: "well_shaped raw"
    and stamps: "\<forall>x \<in> set (drop 2 (df_index raw)). \<exists>s t. x = Some s \<and> parse_ts s = Some t"
    and numeric: "list_all (list_all (\<lambda>c. case c of None \<Rightarrow> True | Some s \<Rightarrow> to_float s \<noteq> None))
                    (df_values (drop_columns (filter_regex_columns ''Unnamed'' raw) (df_rows_from 2 raw)))"
  shows "\<exists>df. snd (read_campbell_scientific pd_read_csv parse_ts to_float w file_name index_col encoding)
                = Some df \<and>
              length (df_index df) = length (df_index raw) - 2 \<and>
              df_index df = map (\<lambda>x. Option.bind x parse_ts) (drop 2 (df_index raw)) \<and>
              None \<notin> set (df_index df) \<and>
              df_columns df = filter (\<lambda>c. \<not> contains ''Unnamed'' c) (df_columns raw) \<and>
              well_shaped df"
proof -
  let ?w1 = "logger_info (''Reading Campbell Scientific CSV file '' @ file_name) w"
  let ?df1 = "df_rows_from 2 raw"
  let ?df2 = "drop_columns (filter_regex_columns ''Unnamed'' ?df1) ?df1"
  let ?index = "map (\<lambda>x. Option.bind x parse_ts) (drop 2 (df_index raw))"
  let ?vs = "map (map (\<lambda>c. Option.bind c to_float)) (df_values ?df2)"
  let ?df = "\<lparr>df_index = ?index, df_columns = df_columns ?df2, df_values = ?vs\<rparr>"
  have same_cols: "filter_regex_columns ''Unnamed'' ?df1 = filter_regex_columns ''Unnamed'' raw"
    by (simp add: filter_regex_columns_def df_rows_from_def)
  have dt: "to_datetime parse_ts (df_index ?df1) = Inr ?index"
    using stamps by (simp add: df_rows_from_def to_datetime_all_parse)
  have fl: "floats_of_rows to_float (df_values ?df2) = Inr ?vs"
    using numeric by (intro floats_of_rows_ok) (simp add: same_cols)
  have tried: "read_campbell_scientific_try pd_read_csv parse_ts to_float ?w1 file_name index_col encoding
               = Inr ?df"
    using raw dt fl by (simp add: read_campbell_scientific_try_def Let_def)
  have noNaT: "None \<notin> set ?index"
    using stamps by (auto simp: image_iff)
  have res: "snd (read_campbell_scientific pd_read_csv parse_ts to_float w file_name index_col encoding)
               = Some ?df"
    using noNaT tried by (simp add: read_campbell_scientific_def Let_def drop_NaT_id)
  have cols: "df_columns ?df = filter (\<lambda>c. \<not> contains ''Unnamed'' c) (df_columns raw)"
    by (simp add: drop_columns_def Let_def df_rows_from_def filter_regex_columns_def select_map_pred
          cong: filter_cong)
  have shape: "well_shaped ?df"
    using shaped
    by (auto simp: well_shaped_def drop_columns_def Let_def df_rows_from_def list_all_iff
          select_length dest: in_set_dropD)
  show ?thesis
    using res cols shape noNaT by (intro exI[of _ ?df]) simp
qed

theorem read_campbell_scientific_valid_file_witness:
  "\<exists>df. snd (read_campbell_scientific (read_csv_stub [(''a.dat'', ex_raw)]) ex_parse_ts ex_to_float
               empty_world ''a.dat'' ''TIMESTAMP'' None) = Some df \<and>
        length (df_index df) = length (df_index ex_raw) - 2 \<and>
        df_index df = map (\<lambda>x. Option.bind x ex_parse_ts) (drop 2 (df_index ex_raw)) \<and>
        None \<notin> set (df_index df) \<and>
        df_columns df = filter (\<lambda>c. \<not> contains ''Unnamed'' c) (df_columns ex_raw) \<and>
        well_shaped df"
proof (rule read_campbell_scientific_valid_file)
  show "read_csv_stub [(''a.dat'', ex_raw)]
          (logger_info (''Reading Campbell Scientific CSV file '' @ ''a.dat'') empty_world)
          ''a.dat'' None ''TIMESTAMP'' = Inr ex_raw"
    by (simp add: read_csv_stub_def)
  show "well_shaped ex_raw"
    by (simp add: well_shaped_def ex_raw_def)
  show "\<forall>x \<in> set (drop 2 (df_index ex_raw)). \<exists>s t. x = Some s \<and> ex_parse_ts s = Some t"
    by (simp add: ex_raw_def ex_parse_ts_def)
  show "list_all (list_all (\<lambda>c. case c of None \<Rightarrow> True | Some s \<Rightarrow> ex_to_float s \<noteq> None))
          (df_values (drop_columns (filter_regex_columns ''Unnamed'' ex_raw) (df_rows_from 2 ex_raw)))"
    by (simp add: ex_raw_def ex_to_float_def drop_columns_def filter_regex_columns_def
          df_rows_from_def select_def Let_def)
qed

text \<open>
  C3 as the claim states it fails: on the file of \<open>ex_raw\<close>, which is valid, has three
  records and no timestamp that does not parse, the table that comes back has three rows
  with the index 00:02, 00:01, 00:01, which is neither ascending nor free of duplicates.
\<close>

theorem read_campbell_scientific_index_counterexample:
  "snd (read_campbell_scientific (read_csv_stub [(''a.dat'', ex_raw)]) ex_parse_ts ex_to_float
          empty_world ''a.dat'' ''TIMESTAMP'' None) =
     Some \<lparr>df_index = [Some 2, Some 1, Some 1], df_columns = [''RECORD''],
           df_values = [[Some 1], [Some 2], [Some 3]]\<rparr> \<and>
   \<not> sorted [Some 2, Some 1, Some (1::nat)] \<and>
   \<not> distinct [Some 2, Some 1, Some (1::nat)]"
  by (simp add: read_campbell_scientific_def read_campbell_scientific_try_def read_csv_stub_def
        ex_raw_def ex_parse_ts_def ex_to_float_def drop_columns_def filter_regex_columns_def
        df_rows_from_def select_def drop_NaT_def Let_def)

subsection \<open>write_metrics\<close>




text \<open>
  A label that is read back as a number. The prior file \<^verbatim>\<open>n.csv\<close> has the row 1 with
  the value 0.9; the new table has the row 1 with the value 0.5. pandas reads the prior
  label as the number 1 and the new label is the text \<^verbatim>\<open>1\<close>, so they are two rows:
  the file that is written has both, each under the label \<^verbatim>\<open>1\<close>.
\<close>

lemma write_metrics_numbered_label_example:
  "files (fst (write_metrics (read_metrics_stub [(''n.csv'', ex_prior_numbered)]) ex_native_int
                 ex_index_union ex_index_union str_int ex_str ex_csv_text ex_numbered_world
                 ''n.csv'' ex_new_numbered))
     ''n.csv'' =
     Some ''TIMESTEP,QCI\<newline>1,0.5\<newline>1,0.9\<newline>''"
proof -
  have one: "str_int 1 = ''1''"
    by code_simp
  show ?thesis
    by (simp add: write_metrics_def read_metrics_stub_def ex_prior_numbered_def
          ex_new_numbered_def ex_native_int_def ex_str_def ex_index_union_def ex_csv_text_def
          ex_numbered_world_def combine_first_def cell_at_def to_csv_records_def csv_field_def
          write_file_def logger_info_def label_text_def one Let_def)
qed


subsection \<open>write_test_results\<close>

text \<open>
  C4. For test results that have the columns \<^verbatim>\<open>System Name\<close> and \<^verbatim>\<open>Variable Name\<close>,
  written to a path that can be written, \<open>write_test_results\<close> returns normally and
  the file holds the csv text of the header and of the rows of the collection (the same
  rows, as a multiset) in ascending order of the pair (system name, variable name), a
  missing name after every name; the rows are numbered 1 to N in that order, and a
  missing cell is the token \<^verbatim>\<open>NaN\<close>.
\<close>

theorem write_test_results_sorted_reindexed:
  fixes test_results :: "(int, ('v::linorder) option) frame"
  assumes system: "''System Name'' \<in> set (df_columns test_results)"
    and variable: "''Variable Name'' \<in> set (df_columns test_results)"
    and shaped: "well_shaped test_results"
    and can_write: "writable w filename"
  shows "\<exists>w' tr. write_test_results str_value csv_text w filename test_results = (w', tr, Inr ()) \<and>
           mset (df_values tr) = mset (df_values test_results) \<and>
           sorted (map (\<lambda>row. (na_last (row_cell (df_columns test_results) row ''System Name''),
                               na_last (row_cell (df_columns test_results) row ''Variable Name'')))
                     (df_values tr)) \<and>
           df_index tr = map int [1 ..< length (df_index test_results) + 1] \<and>
           files w' filename =
             Some (csv_text
               (([] # df_columns test_results) #
                map (\<lambda>(i, row). str_int i #
                       map (\<lambda>c. case c of None \<Rightarrow> ''NaN'' | Some v \<Rightarrow> str_value v) row)
                  (zip (df_index tr) (df_values tr))))"
proof -
  have "set [''System Name'', ''Variable Name''] \<subseteq> set (df_columns test_results)"
    using system variable by simp
  from sort_values_reindexed[OF this shaped]
  obtain sorted_df where sv: "sort_values [''System Name'', ''Variable Name''] test_results = Inr sorted_df"
    and idx: "df_index (reindex_from_1 sorted_df) = map int [1 ..< length (df_index test_results) + 1]"
    and cols: "df_columns (reindex_from_1 sorted_df) = df_columns test_results"
    and ms: "mset (df_values (reindex_from_1 sorted_df)) = mset (df_values test_results)"
    and srt: "sorted (map (row_key [''System Name'', ''Variable Name''] (df_columns test_results))
                        (df_values (reindex_from_1 sorted_df)))"
    by blast
  let ?tr = "reindex_from_1 sorted_df"
  let ?w1 = "logger_info (''Writing test results csv file '' @ filename) w"
  have wr: "writable ?w1 filename"
    using can_write by (simp add: logger_info_def)
  have csv: "to_csv_records [] ''NaN'' str_int str_value ?tr =
      ([] # df_columns test_results) #
      map (\<lambda>(i, row). str_int i # map (\<lambda>c. case c of None \<Rightarrow> ''NaN'' | Some v \<Rightarrow> str_value v) row)
        (zip (df_index ?tr) (df_values ?tr))"
    unfolding to_csv_records_def cols csv_field_def by simp
  have run: "write_test_results str_value csv_text w filename test_results =
      (?w1\<lparr>files := (files ?w1)(filename \<mapsto> csv_text (to_csv_records [] ''NaN'' str_int str_value ?tr))\<rparr>,
       ?tr, Inr ())"
    using wr by (simp add: write_test_results_def sv Let_def write_file_def)
  show ?thesis
    unfolding run using ms srt idx csv
    by (simp add: sorted_row_key_pair del: upt_Suc)
qed

theorem write_test_results_sorted_reindexed_witness:
  "\<exists>w' tr. write_test_results ex_str ex_csv_text empty_world ''tr.csv'' ex_test_results
                = (w', tr, Inr ()) \<and>
           mset (df_values tr) = mset (df_values ex_test_results) \<and>
           sorted (map (\<lambda>row. (na_last (row_cell (df_columns ex_test_results) row ''System Name''),
                               na_last (row_cell (df_columns ex_test_results) row ''Variable Name'')))
                     (df_values tr)) \<and>
           df_index tr = map int [1 ..< length (df_index ex_test_results) + 1] \<and>
           files w' ''tr.csv'' =
             Some (ex_csv_text
               (([] # df_columns ex_test_results) #
                map (\<lambda>(i, row). str_int i #
                       map (\<lambda>c. case c of None \<Rightarrow> ''NaN'' | Some v \<Rightarrow> ex_str v) row)
                  (zip (df_index tr) (df_values tr))))"
proof (rule write_test_results_sorted_reindexed)
  show "''System Name'' \<in> set (df_columns ex_test_results)"
    and "''Variable Name'' \<in> set (df_columns ex_test_results)"
    by (simp_all add: ex_test_results_def)
  show "well_shaped ex_test_results"
    by (simp add: ex_test_results_def well_shaped_def)
  show "writable empty_world ''tr.csv''"
    by (simp add: empty_world_def)
qed

subsection \<open>The caller's test results\<close>

text \<open>
  C9. \<open>write_test_results\<close> and \<open>write_monitoring_report\<close> sort and renumber the
  frame they are given, not a copy. Whatever the order and the labels of the rows on
  entry, and whether or not the call then raises (a path that cannot be written, an
  image that cannot be read), the caller's frame holds the same rows afterwards, in
  ascending order of (system name, variable name), labelled 1 to N; both functions leave
  it in the same state.
\<close>

theorem test_results_mutated_in_place:
  fixes pm :: "('t, 'f, 'v::linorder) PerformanceMonitoring"
  assumes system: "''System Name'' \<in> set (df_columns (pm_test_results pm))"
    and variable: "''Variable Name'' \<in> set (df_columns (pm_test_results pm))"
    and shaped: "well_shaped (pm_test_results pm)"
    and after1: "after1 = fst (snd (write_test_results str_value csv_text w filename (pm_test_results pm)))"
    and after2: "after2 = fst (snd (write_monitoring_report lib w2 filename2 pm test_results_graphics
                    custom_graphics metrics title config logo im_width_test_results im_width_custom encode))"
  shows "after2 = after1 \<and>
         mset (df_values after1) = mset (df_values (pm_test_results pm)) \<and>
         sorted (map (\<lambda>row. (na_last (row_cell (df_columns (pm_test_results pm)) row ''System Name''),
                             na_last (row_cell (df_columns (pm_test_results pm)) row ''Variable Name'')))
                   (df_values after1)) \<and>
         df_index after1 = map int [1 ..< length (df_index (pm_test_results pm)) + 1] \<and>
         df_columns after1 = df_columns (pm_test_results pm)"
proof -
  have "set [''System Name'', ''Variable Name''] \<subseteq> set (df_columns (pm_test_results pm))"
    using system variable by simp
  from sort_values_reindexed[OF this shaped]
  obtain sorted_df where sv: "sort_values [''System Name'', ''Variable Name''] (pm_test_results pm) = Inr sorted_df"
    and idx: "df_index (reindex_from_1 sorted_df) = map int [1 ..< length (df_index (pm_test_results pm)) + 1]"
    and cols: "df_columns (reindex_from_1 sorted_df) = df_columns (pm_test_results pm)"
    and ms: "mset (df_values (reindex_from_1 sorted_df)) = mset (df_values (pm_test_results pm))"
    and srt: "sorted (map (row_key [''System Name'', ''Variable Name''] (df_columns (pm_test_results pm)))
                        (df_values (reindex_from_1 sorted_df)))"
    by blast
  have a1: "after1 = reindex_from_1 sorted_df"
    unfolding after1 by (simp add: write_test_results_def sv Let_def split: sum.splits)
  have a2: "after2 = reindex_from_1 sorted_df"
    unfolding after2 by (simp add: write_monitoring_report_def sv Let_def split: sum.splits prod.splits)
  show ?thesis
    unfolding a1 a2 using ms srt idx cols by (simp add: sorted_row_key_pair del: upt_Suc)
qed

theorem test_results_mutated_in_place_witness:
  "ex_test_results_after = ex_test_results_after \<and>
   mset (df_values ex_test_results_after) = mset (df_values (pm_test_results ex_pm)) \<and>
   sorted (map (\<lambda>row. (na_last (row_cell (df_columns (pm_test_results ex_pm)) row ''System Name''),
                       na_last (row_cell (df_columns (pm_test_results ex_pm)) row ''Variable Name'')))
             (df_values ex_test_results_after)) \<and>
   df_index ex_test_results_after = map int [1 ..< length (df_index (pm_test_results ex_pm)) + 1] \<and>
   df_columns ex_test_results_after = df_columns (pm_test_results ex_pm)"
proof (rule test_results_mutated_in_place)
  show "''System Name'' \<in> set (df_columns (pm_test_results ex_pm))"
    and "''Variable Name'' \<in> set (df_columns (pm_test_results ex_pm))"
    by (simp_all add: ex_pm_def ex_test_results_def)
  show "well_shaped (pm_test_results ex_pm)"
    by (simp add: ex_pm_def ex_test_results_def well_shaped_def)
  show "ex_test_results_after =
          fst (snd (write_test_results ex_str ex_csv_text empty_world ''tr.csv''
                      (pm_test_results ex_pm)))"
    by code_simp
  show "ex_test_results_after =
          fst (snd (write_monitoring_report ex_report_lib empty_world ''report.html'' ex_pm
                      [''missing.png''] [] None ''Pecos Monitoring Report'' [] None 700 700 True))"
    by code_simp
qed

subsection \<open>send_email\<close>

text \<open>
  C6. The part that carries the body has the subtype \<^verbatim>\<open>html\<close> exactly when some stretch
  of the body reads \<^verbatim>\<open></html>\<close> once its letters are put in lower case, that is when the
  body contains the closing tag in some letter case; otherwise the subtype is
  \<^verbatim>\<open>plain\<close>.
\<close>

theorem send_email_body_subtype:
  "body_part body =
     MIMEText body (if \<exists>tag. sublist tag body \<and> lower tag = ''</html>'' then ''html'' else ''plain'')"
  by (simp add: body_part_def contains_sublist lower_def sublist_map_iff)

theorem send_email_body_subtype_witness: "body_part ''<p>Report</p></HTML>'' = MIMEText ''<p>Report</p></HTML>'' ''html''"
proof -
  have "sublist ''</HTML>'' ''<p>Report</p></HTML>''"
    by code_simp
  moreover have "lower ''</HTML>'' = ''</html>''"
    by code_simp
  ultimately have "\<exists>tag. sublist tag ''<p>Report</p></HTML>'' \<and> lower tag = ''</html>''"
    by blast
  then show ?thesis
    using send_email_body_subtype[of "''<p>Report</p></HTML>''"] by (simp only: if_True)
qed



subsection \<open>write_monitoring_report\<close>

text \<open>
  C5. With \<^verbatim>\<open>encode=True\<close>, when some file among the custom graphics and the test
  results graphics cannot be read, the call raises the IOError of such a file (the
  first one the two loops meet) and writes no file: the report is not produced with
  the image left out. (The test results carry the two name columns, as those of a
  monitoring object do; else the sort of line 252 raises first.)
\<close>

theorem write_monitoring_report_unreadable_image:
  fixes pm :: "('t, 'f, 'v::linorder) PerformanceMonitoring"
  assumes system: "''System Name'' \<in> set (df_columns (pm_test_results pm))"
    and variable: "''Variable Name'' \<in> set (df_columns (pm_test_results pm))"
    and listed: "im \<in> set custom_graphics \<union> set test_results_graphics"
    and unreadable: "files w im = None"
  shows "\<exists>w' tr im'. write_monitoring_report lib w filename pm test_results_graphics custom_graphics
                        metrics title config logo im_width_test_results im_width_custom True
                      = (w', tr, Inl (IOError im')) \<and>
           im' \<in> set custom_graphics \<union> set test_results_graphics \<and>
           files w im' = None \<and>
           files w' = files w"
proof -
  have "set [''System Name'', ''Variable Name''] \<subseteq> set (df_columns (pm_test_results pm))"
    using system variable by simp
  from sort_values_ok[OF this]
  obtain sorted_df where sv: "sort_values [''System Name'', ''Variable Name''] (pm_test_results pm) = Inr sorted_df"
    by blast
  define w1 where "w1 = logger_info ''Writing HTML report'' w"
  define w2 where "w2 = (if df_empty (pm_df pm) then logger_warning ''Empty database'' w1 else w1)"
  have fw2: "files w2 = files w"
    by (simp add: w2_def w1_def logger_info_def logger_warning_def)
  define content where "content =
       \<lparr>content_start_time = (if df_empty (pm_df pm) then ''NaN'' else str_timestamp lib (hd (df_index (pm_df pm)))),
        content_end_time = (if df_empty (pm_df pm) then ''NaN'' else str_timestamp lib (last (df_index (pm_df pm)))),
        content_num_notes = str_int (int (length (df_index (collect_notes lib w2)))),
        content_notes = notes_to_html lib (collect_notes lib w2),
        content_num_test_results = str_int (int (length (df_index (reindex_from_1 sorted_df)))),
        content_test_results = test_results_to_html lib (reindex_from_1 sorted_df),
        content_test_results_graphics = test_results_graphics,
        content_custom_graphics = custom_graphics,
        content_num_metrics = str_int (int (length (df_index (case metrics of None \<Rightarrow> DataFrame_empty | Some m \<Rightarrow> m)))),
        content_metrics = metrics_to_html lib (case metrics of None \<Rightarrow> DataFrame_empty | Some m \<Rightarrow> m),
        content_config = config\<rparr>"
  have run: "write_monitoring_report lib w filename pm test_results_graphics custom_graphics
               metrics title config logo im_width_test_results im_width_custom encode =
             (case html_template_monitoring_report lib w2 content (basename title) logo
                     im_width_test_results im_width_custom encode of
                Inl e \<Rightarrow> (w2, reindex_from_1 sorted_df, Inl e)
              | Inr html_string \<Rightarrow>
                  (case write_file w2 filename html_string of
                     Inl e \<Rightarrow> (w2, reindex_from_1 sorted_df, Inl e)
                   | Inr w3 \<Rightarrow> (logger_info [] w3, reindex_from_1 sorted_df, Inr ())))" for encode
    by (simp add: write_monitoring_report_def sv Let_def w2_def w1_def content_def
          split: sum.splits)
  have "im \<in> set (content_custom_graphics content) \<union> set (content_test_results_graphics content)"
    using listed by (simp add: content_def)
  moreover have "files w2 im = None"
    using unreadable fw2 by simp
  ultimately obtain im' where
      "html_template_monitoring_report lib w2 content (basename title) logo
         im_width_test_results im_width_custom True = Inl (IOError im')"
      and "im' \<in> set (content_custom_graphics content) \<union> set (content_test_results_graphics content)"
      and "files w2 im' = None"
    using html_template_monitoring_report_unreadable by blast
  then show ?thesis
    using fw2 by (simp add: run content_def)
qed

theorem write_monitoring_report_unreadable_image_witness:
  "\<exists>w' tr im'. write_monitoring_report ex_report_lib empty_world ''report.html'' ex_pm
                     [''missing.png''] [] None ''Pecos Monitoring Report'' [] None 700 700 True
                   = (w', tr, Inl (IOError im')) \<and>
        im' \<in> set [] \<union> set [''missing.png''] \<and>
        files empty_world im' = None \<and>
        files w' = files empty_world"
proof (rule write_monitoring_report_unreadable_image)
  show "''System Name'' \<in> set (df_columns (pm_test_results ex_pm))"
    and "''Variable Name'' \<in> set (df_columns (pm_test_results ex_pm))"
    by (simp_all add: ex_pm_def ex_test_results_def)
  show "''missing.png'' \<in> set [] \<union> set [''missing.png'']"
    by simp
  show "files empty_world ''missing.png'' = None"
    by (simp add: empty_world_def)
qed

text \<open>
  C8. When the data table of the monitoring object is empty, the call binds the text
  \<^verbatim>\<open>NaN\<close> to both \<^verbatim>\<open>start_time\<close> and \<^verbatim>\<open>end_time\<close> of the content it hands to the
  template, logs the warning, and returns normally with the rendered text in the file,
  provided nothing else fails: the test results carry the two name columns, the images
  are readable if they are to be encoded, and the path can be written. (The template is
  not part of the module's source; the theorem is about what it is given.)
\<close>

theorem write_monitoring_report_empty_table:
  fixes pm :: "('t, 'f, 'v::linorder) PerformanceMonitoring"
  assumes empty: "df_empty (pm_df pm)"
    and system: "''System Name'' \<in> set (df_columns (pm_test_results pm))"
    and variable: "''Variable Name'' \<in> set (df_columns (pm_test_results pm))"
    and images: "encode \<longrightarrow> (\<forall>im \<in> set custom_graphics \<union> set test_results_graphics. files w im \<noteq> None)"
    and can_write: "writable w filename"
  shows "\<exists>w' tr content img_dic.
           write_monitoring_report lib w filename pm test_results_graphics custom_graphics
             metrics title config logo im_width_test_results im_width_custom encode
           = (w', tr, Inr ()) \<and>
           content_start_time content = ''NaN'' \<and>
           content_end_time content = ''NaN'' \<and>
           files w' filename =
             Some (render_report lib
                     \<lparr>rl_content = content, rl_title = basename title, rl_logo = logo,
                      rl_im_width_test_results = im_width_test_results,
                      rl_im_width_custom = im_width_custom, rl_encode = encode,
                      rl_img_dic = img_dic, rl_datestr = datestr lib, rl_version = version lib\<rparr>) \<and>
           logged w' = logged w @ [(INFO, ''Writing HTML report''), (WARNING, ''Empty database''), (INFO, [])]"
proof -
  have "set [''System Name'', ''Variable Name''] \<subseteq> set (df_columns (pm_test_results pm))"
    using system variable by simp
  from sort_values_ok[OF this]
  obtain sorted_df where sv: "sort_values [''System Name'', ''Variable Name''] (pm_test_results pm) = Inr sorted_df"
    by blast
  define w2 where "w2 = logger_warning ''Empty database'' (logger_info ''Writing HTML report'' w)"
  have fw2: "files w2 = files w" and ww2: "writable w2 = writable w"
    and lw2: "logged w2 = logged w @ [(INFO, ''Writing HTML report''), (WARNING, ''Empty database'')]"
    by (simp_all add: w2_def logger_info_def logger_warning_def)
  define content where "content =
       \<lparr>content_start_time = ''NaN'',
        content_end_time = ''NaN'',
        content_num_notes = str_int (int (length (df_index (collect_notes lib w2)))),
        content_notes = notes_to_html lib (collect_notes lib w2),
        content_num_test_results = str_int (int (length (df_index (reindex_from_1 sorted_df)))),
        content_test_results = test_results_to_html lib (reindex_from_1 sorted_df),
        content_test_results_graphics = test_results_graphics,
        content_custom_graphics = custom_graphics,
        content_num_metrics = str_int (int (length (df_index (case metrics of None \<Rightarrow> DataFrame_empty | Some m \<Rightarrow> m)))),
        content_metrics = metrics_to_html lib (case metrics of None \<Rightarrow> DataFrame_empty | Some m \<Rightarrow> m),
        content_config = config\<rparr>"
  have run: "write_monitoring_report lib w filename pm test_results_graphics custom_graphics
               metrics title config logo im_width_test_results im_width_custom encode =
             (case html_template_monitoring_report lib w2 content (basename title) logo
                     im_width_test_results im_width_custom encode of
                Inl e \<Rightarrow> (w2, reindex_from_1 sorted_df, Inl e)
              | Inr html_string \<Rightarrow>
                  (case write_file w2 filename html_string of
                     Inl e \<Rightarrow> (w2, reindex_from_1 sorted_df, Inl e)
                   | Inr w3 \<Rightarrow> (logger_info [] w3, reindex_from_1 sorted_df, Inr ())))"
    using empty
    by (simp add: write_monitoring_report_def sv Let_def w2_def content_def split: sum.splits)
  have "encode \<longrightarrow> (\<forall>im \<in> set (content_custom_graphics content) \<union> set (content_test_results_graphics content).
                       files w2 im \<noteq> None)"
    using images by (simp add: content_def fw2)
  from html_template_monitoring_report_readable[OF this]
  obtain img_dic where html:
    "html_template_monitoring_report lib w2 content (basename title) logo
       im_width_test_results im_width_custom encode =
     Inr (render_report lib
            \<lparr>rl_content = content, rl_title = basename title, rl_logo = logo,
             rl_im_width_test_results = im_width_test_results,
             rl_im_width_custom = im_width_custom, rl_encode = encode,
             rl_img_dic = img_dic, rl_datestr = datestr lib, rl_version = version lib\<rparr>)"
    by blast
  have c: "content_start_time content = ''NaN''" "content_end_time content = ''NaN''"
    by (simp_all add: content_def)
  define html_string where "html_string = render_report lib
            \<lparr>rl_content = content, rl_title = basename title, rl_logo = logo,
             rl_im_width_test_results = im_width_test_results,
             rl_im_width_custom = im_width_custom, rl_encode = encode,
             rl_img_dic = img_dic, rl_datestr = datestr lib, rl_version = version lib\<rparr>"
  define w' where "w' = logger_info [] (w2\<lparr>files := (files w2)(filename \<mapsto> html_string)\<rparr>)"
  have result: "write_monitoring_report lib w filename pm test_results_graphics custom_graphics
               metrics title config logo im_width_test_results im_width_custom encode =
             (w', reindex_from_1 sorted_df, Inr ())"
    unfolding run html using can_write
    by (simp add: write_file_def ww2 w'_def html_string_def)
  have written: "files w' filename = Some html_string"
    and log: "logged w' = logged w @ [(INFO, ''Writing HTML report''), (WARNING, ''Empty database''), (INFO, [])]"
    by (simp_all add: w'_def logger_info_def lw2)
  show ?thesis
    using result written log c unfolding html_string_def
    by (intro exI[of _ w'] exI[of _ "reindex_from_1 sorted_df"] exI[of _ content] exI[of _ img_dic])
       simp
qed

theorem write_monitoring_report_empty_table_witness:
  "\<exists>w' tr content img_dic.
     write_monitoring_report ex_report_lib empty_world ''report.html'' ex_pm_empty [] []
       None ''Pecos Monitoring Report'' [] None 700 700 False
     = (w', tr, Inr ()) \<and>
     content_start_time content = ''NaN'' \<and>
     content_end_time content = ''NaN'' \<and>
     files w' ''report.html'' =
       Some (render_report ex_report_lib
               \<lparr>rl_content = content, rl_title = basename ''Pecos Monitoring Report'',
                rl_logo = None, rl_im_width_test_results = 700, rl_im_width_custom = 700,
                rl_encode = False, rl_img_dic = img_dic, rl_datestr = datestr ex_report_lib,
                rl_version = version ex_report_lib\<rparr>) \<and>
     logged w' = logged empty_world @
       [(INFO, ''Writing HTML report''), (WARNING, ''Empty database''), (INFO, [])]"
proof (rule write_monitoring_report_empty_table)
  show "df_empty (pm_df ex_pm_empty)"
    by (simp add: ex_pm_empty_def df_empty_def DataFrame_empty_def)
  show "''System Name'' \<in> set (df_columns (pm_test_results ex_pm_empty))"
    and "''Variable Name'' \<in> set (df_columns (pm_test_results ex_pm_empty))"
    by (simp_all add: ex_pm_empty_def ex_test_results_def)
  show "False \<longrightarrow> (\<forall>im \<in> set [] \<union> set []. files empty_world im \<noteq> None)"
    by simp
  show "writable empty_world ''report.html''"
    by (simp add: empty_world_def)
qed

subsection \<open>write_dashboard\<close>




text \<open>
  The same grid with the rows in the other order: the pair (\<^verbatim>\<open>Y\<close>, \<^verbatim>\<open>A\<close>) is visited
  first, and the call raises the KeyError of its lookup; the file that does not exist is
  never opened.
\<close>

lemma write_dashboard_lookup_first_example:
  "snd (write_dashboard ex_str ex_render_dashboard ''11/04/2026'' ''0.1'' empty_world
          ''dash.html'' [''A''] [''Y'', ''X''] ex_content_plot ''Pecos Dashboard'' [] None 250
          False True) = Inl (KeyError (KeyPair ''Y'' ''A''))"
  by (simp add: write_dashboard_def html_template_dashboard_def loop_pairs_def
        ex_content_plot_def ex_cell_plot_def read_file_def empty_world_def logger_info_def)

end
